theory Spec2Isabelle
  imports Main
begin

section \<open>Shared vocabulary\<close>

text \<open>
  A Python \<open>date\<close> is represented by its proleptic Gregorian ordinal
  (\<open>date.toordinal()\<close>), so that \<open>(b - a).days\<close> is the integer \<open>b - a\<close> and the
  comparisons of dates are those of the integers. A \<open>DecimalField\<close> with two
  decimal places is counted in hundredths; multiplying it by a whole number of
  nights is exact. A user is identified by the primary key of its row; Django
  compares model instances by primary key.
\<close>

type_synonym date = int
type_synonym decimal = int
type_synonym key = int
type_synonym user = nat

text \<open>
  The \<open>ValidationError\<close>s raised by the models and serializers, one constructor
  per message of the source:
  \<^item> \<open>InvalidDateRange\<close>: "End date must be after start date." (serializer) and
    "Check-out date must be after check-in date." (model);
  \<^item> \<open>RangeTooLong\<close>: "Booking cannot exceed 365 days.";
  \<^item> \<open>CapacityExceeded m\<close>: "Number of guests exceeds maximum allowed (m).";
  \<^item> \<open>ListingUnavailable\<close>: "This listing is not available for booking.";
  \<^item> \<open>DateConflict\<close>: "This listing is already booked for the selected dates.";
  \<^item> \<open>InvalidListingID\<close>: "Invalid listing ID.";
  \<^item> \<open>StartDateInPast\<close>: "Start date cannot be in the past.";
  \<^item> \<open>EndDateInPast\<close>: "End date cannot be in the past.";
  \<^item> \<open>IllegalTransition cur new\<close>: "Cannot change status from cur to new.".
\<close>

datatype validation_error =
    InvalidDateRange
  | RangeTooLong
  | CapacityExceeded nat
  | ListingUnavailable
  | DateConflict
  | InvalidListingID
  | StartDateInPast
  | EndDateInPast
  | IllegalTransition string string

text \<open>Exceptions that no handler of the modelled code catches.\<close>

datatype exn =
    DoesNotExist
  | MultipleObjectsReturned
  | ConnectionError
  | JSONDecodeError
  | KeyError
  | TypeError
  | IntegrityError

text \<open>
  A parsed JSON document, as \<open>response.json()\<close> returns it. Numbers carry an
  integer only: the modelled code never computes with them.
\<close>

datatype json =
    JNull
  | JBool bool
  | JNumber int
  | JStr string
  | JList "json list"
  | JDict "(string \<times> json) list"

text \<open>
  Python's \<open>data[k]\<close> for a string key: a dict without the key raises
  \<open>KeyError\<close>, every other JSON value raises \<open>TypeError\<close>.
\<close>

definition getitem :: "json \<Rightarrow> string \<Rightarrow> exn + json" where
  "getitem j k =
     (case j of
        JDict kvs \<Rightarrow> (case map_of kvs k of None \<Rightarrow> Inl KeyError | Some v \<Rightarrow> Inr v)
      | _ \<Rightarrow> Inl TypeError)"

text \<open>\<open>Response(body, status=code)\<close> of the REST framework.\<close>

datatype response = Response "(string \<times> json) list" int

section \<open>alx\_travel\_app/listings/models.py\<close>

text \<open>
  The fields of \<open>Listing\<close> and \<open>Booking\<close> that the modelled methods read. A
  booking holds the listing it refers to, as \<open>self.listing\<close> does once the
  related row is loaded. \<open>PositiveIntegerField\<close>s are naturals.
\<close>

record Listing =
  host :: user
  max_guests :: nat

record Booking =
  listing :: Listing
  guest :: user
  check_in_date :: date
  check_out_date :: date
  number_of_guests :: nat
  status :: string

definition duration_nights :: "Booking \<Rightarrow> int" where
  "duration_nights self = check_out_date self - check_in_date self"

definition clean :: "Booking \<Rightarrow> validation_error + unit" where
  "clean self =
     (if check_in_date self \<ge> check_out_date self then Inl InvalidDateRange
      else if number_of_guests self > max_guests (listing self)
      then Inl (CapacityExceeded (max_guests (listing self)))
      else Inr ())"

section \<open>alx\_travel\_app/listings/views.py: the actions of BookingViewSet\<close>

text \<open>
  Both actions start from the booking that \<open>get_object()\<close> returned. \<open>Inl\<close> is
  the 403 response; \<open>Inr b\<close> is the 200 response that serializes the booking
  \<open>b\<close>, which \<open>booking.save()\<close> has stored.
\<close>

definition confirm :: "Booking \<Rightarrow> user \<Rightarrow> response + Booking" where
  "confirm booking request_user =
     (if host (listing booking) \<noteq> request_user
      then Inl (Response [(''error'', JStr ''Only the host can confirm bookings'')] 403)
      else Inr (booking\<lparr>Booking.status := ''confirmed''\<rparr>))"

definition cancel :: "Booking \<Rightarrow> user \<Rightarrow> response + Booking" where
  "cancel booking request_user =
     (if guest booking \<noteq> request_user \<and> host (listing booking) \<noteq> request_user
      then Inl (Response [(''error'', JStr ''Only the guest or host can cancel bookings'')] 403)
      else Inr (booking\<lparr>Booking.status := ''cancelled''\<rparr>))"

section \<open>listings/serializers.py\<close>

text \<open>
  The serializers and the payment views of the package \<open>listings\<close> import
  \<open>Listing\<close>, \<open>Booking\<close> and \<open>Payment\<close> from a \<open>models\<close> module of their own, with
  other field names than the module above (\<open>start_date\<close>, \<open>end_date\<close>,
  \<open>availability\<close>, \<open>user\<close>). Their rows are records of the fields the code
  reads; \<open>pk\<close> is the field \<open>id\<close>. A table is the list of its rows.
\<close>

record ListingRow =
  pk :: key
  price_per_night :: decimal
  availability :: bool

record BookingRow =
  pk :: key
  listing_id :: key
  user :: user
  start_date :: date
  end_date :: date
  total_price :: decimal
  status :: string

text \<open>
  The dictionary \<open>data\<close> that \<open>validate\<close> receives: \<open>data.get(k)\<close> is \<open>None\<close> for
  a key the request did not carry (a partial update may omit any of them).
\<close>

record BookingData =
  listing_id :: "key option"
  start_date :: "date option"
  end_date :: "date option"

text \<open>\<open>timezone.now().date()\<close> is the parameter \<open>today\<close>.\<close>

definition validate_start_date :: "date \<Rightarrow> date \<Rightarrow> validation_error + date" where
  "validate_start_date today val =
     (if val < today then Inl StartDateInPast else Inr val)"

definition validate_end_date :: "date \<Rightarrow> date \<Rightarrow> validation_error + date" where
  "validate_end_date today val =
     (if val < today then Inl EndDateInPast else Inr val)"

text \<open>
  The queryset of \<open>validate\<close>: the filter on listing, status and dates, then
  the exclusion of the booking under update.
\<close>

definition conflicting_bookings ::
  "BookingRow list \<Rightarrow> BookingRow option \<Rightarrow> ListingRow \<Rightarrow> date \<Rightarrow> date \<Rightarrow> BookingRow list" where
  "conflicting_bookings bookings instance listing_row start end =
     (let qs = filter (\<lambda>b. BookingRow.listing_id b = ListingRow.pk listing_row
                          \<and> BookingRow.status b \<in> set [''confirmed'', ''pending'']
                          \<and> BookingRow.start_date b < end
                          \<and> BookingRow.end_date b > start) bookings
      in case instance of
           None \<Rightarrow> qs
         | Some i \<Rightarrow> filter (\<lambda>b. BookingRow.pk b \<noteq> BookingRow.pk i) qs)"

text \<open>
  \<open>BookingSerializer.validate\<close>. A date is always truthy, so
  \<open>if start_date and end_date\<close> asks that both are present; \<open>if listing_id\<close> is
  false for an absent id and for 0. \<open>Listing.objects.get(id=...)\<close> looks a
  primary key up: no row raises \<open>DoesNotExist\<close>, and two rows cannot share it.
\<close>

definition validate ::
  "ListingRow list \<Rightarrow> BookingRow list \<Rightarrow> BookingRow option \<Rightarrow> BookingData
     \<Rightarrow> validation_error + BookingData" where
  "validate listings bookings instance data =
     (let start_date = BookingData.start_date data;
          end_date = BookingData.end_date data;
          listing_id = BookingData.listing_id data;
          range_error =
            (case (start_date, end_date) of
               (Some s, Some e) \<Rightarrow>
                 if s \<ge> e then Some InvalidDateRange
                 else if e - s > 365 then Some RangeTooLong
                 else None
             | _ \<Rightarrow> None)
      in case range_error of
           Some err \<Rightarrow> Inl err
         | None \<Rightarrow>
            (case listing_id of
               None \<Rightarrow> Inr data
             | Some lid \<Rightarrow>
                 if lid = 0 then Inr data
                 else
                   (case find (\<lambda>l. ListingRow.pk l = lid) listings of
                      None \<Rightarrow> Inl InvalidListingID
                    | Some listing_row \<Rightarrow>
                        if \<not> availability listing_row then Inl ListingUnavailable
                        else
                          (case (start_date, end_date) of
                             (Some s, Some e) \<Rightarrow>
                               if conflicting_bookings bookings instance listing_row s e \<noteq> []
                               then Inl DateConflict
                               else Inr data
                           | _ \<Rightarrow> Inr data))))"

text \<open>
  The order in which the REST framework's \<open>run_validation\<close> drives the hooks:
  every \<open>validate_<field>\<close> of a field the request carries, their errors
  collected; \<open>validate\<close> only when there is none.
\<close>

definition run_validation ::
  "date \<Rightarrow> ListingRow list \<Rightarrow> BookingRow list \<Rightarrow> BookingRow option \<Rightarrow> BookingData
     \<Rightarrow> validation_error list + BookingData" where
  "run_validation today listings bookings instance data =
     (let start_errors =
            (case BookingData.start_date data of
               None \<Rightarrow> []
             | Some d \<Rightarrow> (case validate_start_date today d of Inl e \<Rightarrow> [e] | Inr _ \<Rightarrow> []));
          end_errors =
            (case BookingData.end_date data of
               None \<Rightarrow> []
             | Some d \<Rightarrow> (case validate_end_date today d of Inl e \<Rightarrow> [e] | Inr _ \<Rightarrow> []))
      in if start_errors @ end_errors \<noteq> [] then Inl (start_errors @ end_errors)
         else (case validate listings bookings instance data of
                 Inl e \<Rightarrow> Inl [e]
               | Inr d \<Rightarrow> Inr d))"

text \<open>
  Modelled from the spec: \<open>Booking.calculate_total_price\<close>, which \<open>create\<close> and
  \<open>update\<close> call, is defined in the models module of the package \<open>listings\<close>,
  which is not among the sources. The spec gives it as
  "total\_price = price\_per\_night \<times> nights, nights = (end - start).days".
  Reading \<open>self.listing\<close> of a booking whose listing has no row raises
  \<open>DoesNotExist\<close>.
\<close>

definition calculate_total_price :: "ListingRow list \<Rightarrow> BookingRow \<Rightarrow> exn + BookingRow" where
  "calculate_total_price listings self =
     (case find (\<lambda>l. ListingRow.pk l = BookingRow.listing_id self) listings of
        None \<Rightarrow> Inl DoesNotExist
      | Some l \<Rightarrow>
          Inr (self\<lparr>total_price :=
                 price_per_night l * (BookingRow.end_date self - BookingRow.start_date self)\<rparr>))"

text \<open>
  \<open>ModelSerializer.create\<close> (the \<open>super().create\<close> of the source) builds the
  row from the validated data; the view adds the requesting user and the
  database the primary key. The three keys are required of a creation
  request; a row without one of its columns is refused by the database. The
  price of the new row is whatever the column defaults to (\<open>price0\<close>) until
  \<open>calculate_total_price\<close> sets it.
\<close>

definition super_create :: "key \<Rightarrow> user \<Rightarrow> decimal \<Rightarrow> BookingData \<Rightarrow> exn + BookingRow" where
  "super_create new_pk request_user price0 validated_data =
     (case (BookingData.listing_id validated_data,
            BookingData.start_date validated_data,
            BookingData.end_date validated_data) of
        (Some l, Some s, Some e) \<Rightarrow>
          Inr \<lparr>BookingRow.pk = new_pk, listing_id = l, user = request_user,
               start_date = s, end_date = e, total_price = price0,
               status = ''pending''\<rparr>
      | _ \<Rightarrow> Inl IntegrityError)"

definition create ::
  "ListingRow list \<Rightarrow> key \<Rightarrow> user \<Rightarrow> decimal \<Rightarrow> BookingData \<Rightarrow> exn + BookingRow" where
  "create listings new_pk request_user price0 validated_data =
     (case super_create new_pk request_user price0 validated_data of
        Inl e \<Rightarrow> Inl e
      | Inr booking \<Rightarrow> calculate_total_price listings booking)"

text \<open>
  \<open>ModelSerializer.update\<close> (the \<open>super().update\<close> of the source) sets on the
  instance every attribute the validated data carries and leaves the others.
\<close>

definition super_update :: "BookingRow \<Rightarrow> BookingData \<Rightarrow> BookingRow" where
  "super_update instance validated_data =
     instance\<lparr>BookingRow.listing_id :=
                (case BookingData.listing_id validated_data of
                   None \<Rightarrow> BookingRow.listing_id instance | Some l \<Rightarrow> l),
              BookingRow.start_date :=
                (case BookingData.start_date validated_data of
                   None \<Rightarrow> BookingRow.start_date instance | Some d \<Rightarrow> d),
              BookingRow.end_date :=
                (case BookingData.end_date validated_data of
                   None \<Rightarrow> BookingRow.end_date instance | Some d \<Rightarrow> d)\<rparr>"

definition update :: "ListingRow list \<Rightarrow> BookingRow \<Rightarrow> BookingData \<Rightarrow> exn + BookingRow" where
  "update listings instance validated_data =
     (let old_start = BookingRow.start_date instance;
          old_end = BookingRow.end_date instance;
          booking = super_update instance validated_data
      in if BookingRow.start_date booking \<noteq> old_start \<or> BookingRow.end_date booking \<noteq> old_end
         then calculate_total_price listings booking
         else Inr booking)"

text \<open>\<open>BookingStatusUpdateSerializer.validate_status\<close> and its table.\<close>

definition valid_transitions :: "(string \<times> string list) list" where
  "valid_transitions =
     [(''pending'', [''confirmed'', ''canceled'']),
      (''confirmed'', [''canceled'']),
      (''canceled'', [])]"

definition validate_status :: "BookingRow option \<Rightarrow> string \<Rightarrow> validation_error + string" where
  "validate_status instance val =
     (case instance of
        None \<Rightarrow> Inr val
      | Some i \<Rightarrow>
          (let current_status = BookingRow.status i
           in if val \<notin> set (case map_of valid_transitions current_status of
                               None \<Rightarrow> [] | Some ts \<Rightarrow> ts)
              then Inl (IllegalTransition current_status val)
              else Inr val))"

section \<open>listings/views.py: the payment views\<close>

text \<open>
  A row of \<open>Payment\<close>: its primary key, the booking it belongs to (a
  one-to-one reference, so that \<open>hasattr(booking, 'payment')\<close> asks whether
  some payment refers to the booking), the amount, the transaction reference
  and the status. The Celery queue holds the tasks that \<open>.delay\<close> has sent.
\<close>

record PaymentRow =
  pk :: key
  booking :: key
  amount :: decimal
  transaction_id :: string
  status :: string

datatype task = send_booking_confirmation key

record db =
  bookings :: "BookingRow list"
  payments :: "PaymentRow list"
  task_queue :: "task list"

text \<open>
  What the gateway does with a call: \<open>requests\<close> raises (no response at all),
  or there is a response with a status code and a body, which is JSON or not
  (\<open>response.json()\<close> raises on a body that is not).
\<close>

datatype gateway_reply =
    Raises exn
  | HttpResponse int "json option"

text \<open>
  \<open>Model.objects.get\<close> on a condition that is not a primary key: exactly one
  row, or one of the two exceptions.
\<close>

definition objects_get :: "('a \<Rightarrow> bool) \<Rightarrow> 'a list \<Rightarrow> exn + 'a" where
  "objects_get cond rows =
     (case filter cond rows of
        [] \<Rightarrow> Inl DoesNotExist
      | [x] \<Rightarrow> Inr x
      | _ \<Rightarrow> Inl MultipleObjectsReturned)"

text \<open>
  \<open>Payment.objects.create\<close> inserts a row under a fresh primary key;
  \<open>payment.save()\<close> rewrites the row of the payment's primary key.
\<close>

definition fresh_pk :: "PaymentRow list \<Rightarrow> key" where
  "fresh_pk rows = fold max (map PaymentRow.pk rows) 0 + 1"

definition objects_create :: "key \<Rightarrow> decimal \<Rightarrow> string \<Rightarrow> string \<Rightarrow> db \<Rightarrow> db" where
  "objects_create b a t st s =
     s\<lparr>payments := payments s @
         [\<lparr>PaymentRow.pk = fresh_pk (payments s), booking = b, amount = a,
           transaction_id = t, status = st\<rparr>]\<rparr>"

definition save :: "PaymentRow \<Rightarrow> db \<Rightarrow> db" where
  "save payment s =
     s\<lparr>payments :=
         map (\<lambda>q. if PaymentRow.pk q = PaymentRow.pk payment then payment else q)
           (payments s)\<rparr>"

text \<open>
  \<open>InitiatePaymentView.post\<close>. The result is the response, or the exception
  that leaves the view, and the database after the call. \<open>uuid_hex\<close> is
  \<open>uuid.uuid4().hex\<close>. The booking is looked up by primary key and user; the
  payment row is written before the body of the reply is read for the
  checkout address.
\<close>

definition post :: "db \<Rightarrow> user \<Rightarrow> key \<Rightarrow> string \<Rightarrow> gateway_reply \<Rightarrow> (exn + response) \<times> db" where
  "post s request_user booking_id uuid_hex reply =
     (case find (\<lambda>b. BookingRow.pk b = booking_id \<and> user b = request_user) (bookings s) of
        None \<Rightarrow> (Inr (Response [(''error'', JStr ''Booking not found'')] 404), s)
      | Some bk \<Rightarrow>
          if list_ex (\<lambda>p. booking p = BookingRow.pk bk) (payments s)
          then (Inr (Response [(''error'', JStr ''Payment already initiated for this booking'')] 400), s)
          else
            (let amount = total_price bk;
                 tx_ref = ''travel-'' @ uuid_hex
             in case reply of
                  Raises e \<Rightarrow> (Inl e, s)
                | HttpResponse code body \<Rightarrow>
                    if code = 200 then
                      (case body of
                         None \<Rightarrow> (Inl JSONDecodeError, s)
                       | Some data \<Rightarrow>
                           (let s' = objects_create (BookingRow.pk bk) amount tx_ref ''pending'' s
                            in case getitem data ''data'' of
                                 Inl e \<Rightarrow> (Inl e, s')
                               | Inr d \<Rightarrow>
                                   (case getitem d ''checkout_url'' of
                                      Inl e \<Rightarrow> (Inl e, s')
                                    | Inr url \<Rightarrow>
                                        (Inr (Response
                                               [(''checkout_url'', url),
                                                (''message'', JStr ''Payment initiated successfully'')]
                                               200), s'))))
                    else (Inr (Response [(''error'', JStr ''Failed to initiate payment'')] 400), s)))"

text \<open>\<open>VerifyPaymentView.get\<close>.\<close>

definition get :: "db \<Rightarrow> string \<Rightarrow> gateway_reply \<Rightarrow> (exn + response) \<times> db" where
  "get s tx_ref reply =
     (case objects_get (\<lambda>p. transaction_id p = tx_ref) (payments s) of
        Inl DoesNotExist \<Rightarrow> (Inr (Response [(''error'', JStr ''Payment not found'')] 404), s)
      | Inl e \<Rightarrow> (Inl e, s)
      | Inr payment \<Rightarrow>
          (case reply of
             Raises e \<Rightarrow> (Inl e, s)
           | HttpResponse code body \<Rightarrow>
               if code = 200 then
                 (case body of
                    None \<Rightarrow> (Inl JSONDecodeError, s)
                  | Some data \<Rightarrow>
                      (case getitem data ''status'' of
                         Inl e \<Rightarrow> (Inl e, s)
                       | Inr v \<Rightarrow>
                           if v = JStr ''success'' then
                             (let s' = save (payment\<lparr>PaymentRow.status := ''completed''\<rparr>) s
                              in (Inr (Response
                                        [(''status'', JStr ''completed''),
                                         (''message'', JStr ''Payment verified successfully'')]
                                        200),
                                  s'\<lparr>task_queue := task_queue s' @
                                       [send_booking_confirmation (booking payment)]\<rparr>))
                           else
                             (Inr (Response
                                    [(''status'', JStr ''failed''),
                                     (''message'', JStr ''Payment verification failed'')]
                                    400),
                              save (payment\<lparr>PaymentRow.status := ''failed''\<rparr>) s)))
               else (Inr (Response [(''error'', JStr ''Failed to verify payment'')] 400), s)))"

section \<open>The spec's predicates and example data\<close>

text \<open>
  The overlap test in the spec's words: an existing booking on the listing,
  with status pending or confirmed, such that existing.start < end and
  existing.end > start.
\<close>

definition active_overlap :: "BookingRow \<Rightarrow> key \<Rightarrow> date \<Rightarrow> date \<Rightarrow> bool" where
  "active_overlap b lid start end =
     (BookingRow.listing_id b = lid
      \<and> (BookingRow.status b = ''pending'' \<or> BookingRow.status b = ''confirmed'')
      \<and> BookingRow.start_date b < end \<and> BookingRow.end_date b > start)"

text \<open>A booking other than the one under update (any booking on creation).\<close>

definition other_than :: "BookingRow option \<Rightarrow> BookingRow \<Rightarrow> bool" where
  "other_than inst b =
     (case inst of None \<Rightarrow> True | Some i \<Rightarrow> BookingRow.pk b \<noteq> BookingRow.pk i)"

text \<open>
  The spec's example: a listing at 100.00 a night, booked from 2024-06-01
  (ordinal 739038) to 2024-06-04 (739041); a request for 2024-06-03 (739040)
  to 2024-06-05 (739042). Beside it a dearer listing and an unavailable one.
\<close>

definition ex_listings :: "ListingRow list" where
  "ex_listings =
     [\<lparr>ListingRow.pk = 1, price_per_night = 10000, availability = True\<rparr>,
      \<lparr>ListingRow.pk = 2, price_per_night = 20000, availability = True\<rparr>,
      \<lparr>ListingRow.pk = 3, price_per_night = 5000, availability = False\<rparr>]"

definition ex_first :: BookingRow where
  "ex_first = \<lparr>BookingRow.pk = 1, listing_id = 1, user = 5, start_date = 739038,
                end_date = 739041, total_price = 30000, status = ''pending''\<rparr>"

definition ex_second :: BookingRow where
  "ex_second = \<lparr>BookingRow.pk = 2, listing_id = 1, user = 6, start_date = 739050,
                 end_date = 739052, total_price = 20000, status = ''confirmed''\<rparr>"

definition ex_closed :: BookingRow where
  "ex_closed = \<lparr>BookingRow.pk = 3, listing_id = 3, user = 6, start_date = 739038,
                 end_date = 739041, total_price = 15000, status = ''confirmed''\<rparr>"

definition request :: "key option \<Rightarrow> date \<Rightarrow> date \<Rightarrow> BookingData" where
  "request lid s e = \<lparr>BookingData.listing_id = lid, start_date = Some s, end_date = Some e\<rparr>"

text \<open>
  The spec's pricing rule for a stored booking: its total is the nightly
  price of its listing times (end - start).days.
\<close>

definition priced_by_nights :: "ListingRow list \<Rightarrow> BookingRow \<Rightarrow> bool" where
  "priced_by_nights listings b =
     (case find (\<lambda>l. ListingRow.pk l = BookingRow.listing_id b) listings of
        None \<Rightarrow> False
      | Some l \<Rightarrow>
          total_price b = price_per_night l * (BookingRow.end_date b - BookingRow.start_date b))"

text \<open>The test of \<open>update\<close>: a date of the updated row differs from the old one.\<close>

definition dates_changed :: "BookingRow \<Rightarrow> BookingData \<Rightarrow> bool" where
  "dates_changed inst d =
     (BookingRow.start_date (super_update inst d) \<noteq> BookingRow.start_date inst
      \<or> BookingRow.end_date (super_update inst d) \<noteq> BookingRow.end_date inst)"

text \<open>
  Bookings of the model of \<open>models.py\<close>: one that is cancelled, and a pending
  one for \<open>n\<close> guests on a listing for at most four, from day \<open>a\<close> to day \<open>b\<close>.
  A row of the serializers' model whose status is \<open>canceled\<close>.
\<close>

definition ex_cancelled :: Booking where
  "ex_cancelled = \<lparr>listing = \<lparr>host = 7, max_guests = 4\<rparr>, guest = 5,
                    check_in_date = 739038, check_out_date = 739041,
                    number_of_guests = 2, status = ''cancelled''\<rparr>"

definition ex_party :: "date \<Rightarrow> date \<Rightarrow> nat \<Rightarrow> Booking" where
  "ex_party a b n = \<lparr>listing = \<lparr>host = 7, max_guests = 4\<rparr>, guest = 5,
                     check_in_date = a, check_out_date = b,
                     number_of_guests = n, status = ''pending''\<rparr>"

definition ex_canceled_row :: BookingRow where
  "ex_canceled_row = \<lparr>BookingRow.pk = 9, listing_id = 1, user = 5, start_date = 739038,
                       end_date = 739041, total_price = 30000, status = ''canceled''\<rparr>"

text \<open>The responses of the payment views, under the spec's names of the outcomes.\<close>

definition BookingNotFound :: response where
  "BookingNotFound = Response [(''error'', JStr ''Booking not found'')] 404"

definition PaymentAlreadyInitiated :: response where
  "PaymentAlreadyInitiated = Response [(''error'', JStr ''Payment already initiated for this booking'')] 400"

definition GatewayError_initiate :: response where
  "GatewayError_initiate = Response [(''error'', JStr ''Failed to initiate payment'')] 400"

definition GatewayError_verify :: response where
  "GatewayError_verify = Response [(''error'', JStr ''Failed to verify payment'')] 400"

definition PaymentNotFound :: response where
  "PaymentNotFound = Response [(''error'', JStr ''Payment not found'')] 404"

definition VerifiedCompleted :: response where
  "VerifiedCompleted = Response [(''status'', JStr ''completed''),
                                 (''message'', JStr ''Payment verified successfully'')] 200"

text \<open>The status that \<open>get\<close> writes for the \<open>status\<close> entry of a gateway reply.\<close>

definition verdict :: "json \<Rightarrow> string" where
  "verdict v = (if v = JStr ''success'' then ''completed'' else ''failed'')"

text \<open>
  A database with the two example bookings and the given payments; the
  payment of the first booking; gateway replies to a verification and to an
  initiation.
\<close>

definition ex_payment :: "string \<Rightarrow> PaymentRow" where
  "ex_payment st = \<lparr>PaymentRow.pk = 1, booking = 1, amount = 30000,
                     transaction_id = ''travel-abc'', status = st\<rparr>"

definition ex_db :: "PaymentRow list \<Rightarrow> db" where
  "ex_db ps = \<lparr>bookings = [ex_first, ex_second], payments = ps, task_queue = []\<rparr>"

definition ex_settled :: "string \<Rightarrow> gateway_reply" where
  "ex_settled st = HttpResponse 200 (Some (JDict [(''status'', JStr st)]))"

definition ex_checkout :: gateway_reply where
  "ex_checkout = HttpResponse 200
     (Some (JDict [(''data'', JDict [(''checkout_url'', JStr ''https://pay/abc'')])]))"

section \<open>Booking validation\<close>

lemma conflicting_bookings_empty:
  "conflicting_bookings bks inst l s e \<noteq> [] \<longleftrightarrow>
     (\<exists>b\<in>set bks. active_overlap b (ListingRow.pk l) s e \<and> other_than inst b)"
  by (cases inst)
     (auto simp: conflicting_bookings_def active_overlap_def other_than_def filter_empty_conv)

lemma find_pk: "find (\<lambda>l. ListingRow.pk l = lid) listings = Some l \<Longrightarrow> ListingRow.pk l = lid"
  by (auto simp: find_Some_iff)

text \<open>
  C1, as stated, fails: a request meets an overlapping active booking on the
  same listing and is not answered with \<open>DateConflict\<close>. An update that
  carries the two dates and no \<open>listing_id\<close> is accepted without any
  scan; inverted dates, a span of more than 365 days and an unavailable
  listing are each reported before the scan is reached.
\<close>

theorem validate_overlap_without_DateConflict:
  "active_overlap ex_first 1 739040 739042
   \<and> validate ex_listings [ex_first, ex_second] (Some ex_second) (request None 739040 739042)
       = Inr (request None 739040 739042)
   \<and> active_overlap ex_first 1 739040 739039
   \<and> validate ex_listings [ex_first] None (request (Some 1) 739040 739039) = Inl InvalidDateRange
   \<and> active_overlap ex_first 1 739040 739440
   \<and> validate ex_listings [ex_first] None (request (Some 1) 739040 739440) = Inl RangeTooLong
   \<and> active_overlap ex_closed 3 739040 739042
   \<and> validate ex_listings [ex_closed] None (request (Some 3) 739040 739042) = Inl ListingUnavailable"
  by (simp add: validate_def request_def ex_listings_def ex_first_def ex_second_def ex_closed_def
        active_overlap_def)

text \<open>
  C1, amended: a request that carries a non-zero \<open>listing_id\<close> and both dates,
  whose dates are in order and at most 365 days apart, and whose listing
  exists and is available, fails with \<open>DateConflict\<close> exactly when some
  booking on that listing with status pending or confirmed, other than the
  booking under update, has start < requested end and end > requested start;
  otherwise it is accepted. So a booking can be moved to dates that overlap
  only itself.
\<close>

theorem validate_DateConflict_iff:
  assumes "BookingData.listing_id data = Some lid" and "lid \<noteq> 0"
    and "BookingData.start_date data = Some s" and "BookingData.end_date data = Some e"
    and "s < e" and "e - s \<le> 365"
    and "find (\<lambda>l. ListingRow.pk l = lid) listings = Some l" and "availability l"
  shows "validate listings bks inst data =
           (if \<exists>b\<in>set bks. active_overlap b lid s e \<and> other_than inst b
            then Inl DateConflict else Inr data)"
proof -
  have pk: "ListingRow.pk l = lid" using assms(7) by (rule find_pk)
  show ?thesis
    using assms conflicting_bookings_empty [of bks inst l s e]
    by (simp add: validate_def pk)
qed

theorem validate_DateConflict_iff_witness:
  "validate ex_listings [ex_first] None (request (Some 1) 739040 739042) = Inl DateConflict
   \<and> validate ex_listings [ex_first] (Some ex_first) (request (Some 1) 739040 739042)
       = Inr (request (Some 1) 739040 739042)"
  using validate_DateConflict_iff [of "request (Some 1) 739040 739042" 1 739040 739042
          ex_listings "\<lparr>ListingRow.pk = 1, price_per_night = 10000, availability = True\<rparr>"
          "[ex_first]" None]
        validate_DateConflict_iff [of "request (Some 1) 739040 739042" 1 739040 739042
          ex_listings "\<lparr>ListingRow.pk = 1, price_per_night = 10000, availability = True\<rparr>"
          "[ex_first]" "Some ex_first"]
  by (simp add: request_def ex_listings_def ex_first_def active_overlap_def other_than_def)

section \<open>Past dates\<close>

text \<open>
  C9: the booking serializer rejects a start date or an end date strictly
  earlier than the current date: \<open>validate_start_date\<close> and
  \<open>validate_end_date\<close> raise on such a value, and a request that carries one
  is refused by the validation run with that error among those reported.
\<close>

theorem past_dates_rejected:
  "(d < today \<longrightarrow> validate_start_date today d = Inl StartDateInPast
                  \<and> validate_end_date today d = Inl EndDateInPast)
   \<and> (BookingData.start_date data = Some d \<and> d < today
        \<longrightarrow> (\<exists>errs. run_validation today listings bks inst data = Inl errs
                    \<and> StartDateInPast \<in> set errs))
   \<and> (BookingData.end_date data = Some d \<and> d < today
        \<longrightarrow> (\<exists>errs. run_validation today listings bks inst data = Inl errs
                    \<and> EndDateInPast \<in> set errs))"
  by (auto simp: validate_start_date_def validate_end_date_def run_validation_def Let_def
           split: option.splits)

theorem past_dates_rejected_witness:
  "validate_start_date 739040 739038 = Inl StartDateInPast
   \<and> validate_end_date 739040 739038 = Inl EndDateInPast
   \<and> (\<exists>errs. run_validation 739040 ex_listings [] None (request (Some 1) 739038 739041) = Inl errs
         \<and> StartDateInPast \<in> set errs)
   \<and> (\<exists>errs. run_validation 739040 ex_listings [] None (request (Some 1) 739036 739038) = Inl errs
         \<and> EndDateInPast \<in> set errs)"
  using past_dates_rejected [of 739038 739040 "request (Some 1) 739038 739041" ex_listings "[]" None]
        past_dates_rejected [of 739038 739040 "request (Some 1) 739036 739038" ex_listings "[]" None]
  by (simp add: request_def)

section \<open>Total price\<close>

lemma calculate_total_price_priced:
  assumes "find (\<lambda>l. ListingRow.pk l = BookingRow.listing_id b) listings = Some l"
  shows "calculate_total_price listings b =
           Inr (b\<lparr>total_price := price_per_night l * (BookingRow.end_date b - BookingRow.start_date b)\<rparr>)"
    and "priced_by_nights listings
           (b\<lparr>total_price := price_per_night l * (BookingRow.end_date b - BookingRow.start_date b)\<rparr>)"
  using assms by (simp_all add: calculate_total_price_def priced_by_nights_def)

text \<open>
  C2, as stated, fails: an update that moves a booking to a dearer listing
  and keeps its dates passes validation and returns the booking with the
  total of the old listing, which is not the new nightly price times the
  nights.
\<close>

theorem update_listing_keeps_total_price:
  "priced_by_nights ex_listings ex_first
   \<and> validate ex_listings [ex_first] (Some ex_first) (request (Some 2) 739038 739041)
       = Inr (request (Some 2) 739038 739041)
   \<and> update ex_listings ex_first (request (Some 2) 739038 739041)
       = Inr (ex_first\<lparr>BookingRow.listing_id := 2\<rparr>)
   \<and> \<not> priced_by_nights ex_listings (ex_first\<lparr>BookingRow.listing_id := 2\<rparr>)"
  by (simp add: validate_def update_def super_update_def request_def ex_listings_def ex_first_def
        priced_by_nights_def conflicting_bookings_def)

text \<open>
  C2, amended: \<open>create\<close> returns the booking with total\_price =
  price\_per\_night of its listing times (end\_date - start\_date).days; \<open>update\<close>
  recomputes total\_price by the same rule, from the updated row, whenever
  the start or the end date of the booking changed, and otherwise returns the
  updated row with the total\_price it had.
\<close>

theorem total_price_create_update:
  "(BookingData.listing_id d = Some lid \<and> BookingData.start_date d = Some s
      \<and> BookingData.end_date d = Some e
      \<and> find (\<lambda>l. ListingRow.pk l = lid) listings = Some l
    \<longrightarrow> create listings k u p0 d =
          Inr \<lparr>BookingRow.pk = k, listing_id = lid, user = u, start_date = s, end_date = e,
               total_price = price_per_night l * (e - s), status = ''pending''\<rparr>
        \<and> priced_by_nights listings
            \<lparr>BookingRow.pk = k, listing_id = lid, user = u, start_date = s, end_date = e,
               total_price = price_per_night l * (e - s), status = ''pending''\<rparr>)
   \<and> (dates_changed inst d
        \<and> find (\<lambda>l. ListingRow.pk l = BookingRow.listing_id (super_update inst d)) listings = Some l'
      \<longrightarrow> update listings inst d =
            Inr ((super_update inst d)\<lparr>total_price :=
                   price_per_night l' * (BookingRow.end_date (super_update inst d)
                                         - BookingRow.start_date (super_update inst d))\<rparr>)
          \<and> priced_by_nights listings
              ((super_update inst d)\<lparr>total_price :=
                   price_per_night l' * (BookingRow.end_date (super_update inst d)
                                         - BookingRow.start_date (super_update inst d))\<rparr>))
   \<and> (\<not> dates_changed inst d
      \<longrightarrow> update listings inst d = Inr (super_update inst d)
          \<and> total_price (super_update inst d) = total_price inst)"
proof (intro conjI impI)
  assume a: "BookingData.listing_id d = Some lid \<and> BookingData.start_date d = Some s
      \<and> BookingData.end_date d = Some e
      \<and> find (\<lambda>l. ListingRow.pk l = lid) listings = Some l"
  then show "create listings k u p0 d =
          Inr \<lparr>BookingRow.pk = k, listing_id = lid, user = u, start_date = s, end_date = e,
               total_price = price_per_night l * (e - s), status = ''pending''\<rparr>"
    by (simp add: create_def super_create_def calculate_total_price_def)
  from a show "priced_by_nights listings
            \<lparr>BookingRow.pk = k, listing_id = lid, user = u, start_date = s, end_date = e,
               total_price = price_per_night l * (e - s), status = ''pending''\<rparr>"
    by (simp add: priced_by_nights_def)
next
  assume a: "dates_changed inst d
        \<and> find (\<lambda>l. ListingRow.pk l = BookingRow.listing_id (super_update inst d)) listings = Some l'"
  then have u: "update listings inst d = calculate_total_price listings (super_update inst d)"
    by (simp add: update_def dates_changed_def Let_def)
  from a show "update listings inst d =
            Inr ((super_update inst d)\<lparr>total_price :=
                   price_per_night l' * (BookingRow.end_date (super_update inst d)
                                         - BookingRow.start_date (super_update inst d))\<rparr>)"
    using calculate_total_price_priced(1) [of "super_update inst d" listings l']
    by (simp add: u)
  from a show "priced_by_nights listings
              ((super_update inst d)\<lparr>total_price :=
                   price_per_night l' * (BookingRow.end_date (super_update inst d)
                                         - BookingRow.start_date (super_update inst d))\<rparr>)"
    using calculate_total_price_priced(2) [of "super_update inst d" listings l']
    by simp
next
  assume "\<not> dates_changed inst d"
  then show "update listings inst d = Inr (super_update inst d)"
    by (simp add: update_def dates_changed_def Let_def)
next
  show "total_price (super_update inst d) = total_price inst"
    by (simp add: super_update_def)
qed

theorem total_price_create_update_witness:
  "create ex_listings 4 5 0 (request (Some 1) 739038 739042)
     = Inr \<lparr>BookingRow.pk = 4, listing_id = 1, user = 5, start_date = 739038,
            end_date = 739042, total_price = 40000, status = ''pending''\<rparr>
   \<and> update ex_listings ex_first (request (Some 1) 739038 739042)
       = Inr (ex_first\<lparr>BookingRow.end_date := 739042, total_price := 40000\<rparr>)
   \<and> update ex_listings ex_second (request (Some 1) 739050 739052) = Inr ex_second"
  using total_price_create_update [where d = "request (Some 1) 739038 739042" and lid = 1
          and s = 739038 and e = 739042 and listings = ex_listings
          and l = "\<lparr>ListingRow.pk = 1, price_per_night = 10000, availability = True\<rparr>"
          and k = 4 and u = 5 and ?p0.0 = 0 and inst = ex_first
          and l' = "\<lparr>ListingRow.pk = 1, price_per_night = 10000, availability = True\<rparr>"]
        total_price_create_update [where d = "request (Some 1) 739050 739052" and lid = 1
          and s = 739050 and e = 739052 and listings = ex_listings
          and l = "\<lparr>ListingRow.pk = 1, price_per_night = 10000, availability = True\<rparr>"
          and k = 4 and u = 5 and ?p0.0 = 0 and inst = ex_second
          and l' = "\<lparr>ListingRow.pk = 1, price_per_night = 10000, availability = True\<rparr>"]
  by (simp add: request_def ex_listings_def ex_first_def ex_second_def dates_changed_def
        super_update_def)

section \<open>Capacity\<close>

text \<open>
  A booking that \<open>clean\<close> accepts lasts at least one night and fits the
  listing.
\<close>

lemma clean_accepts:
  "clean b = Inr () \<longleftrightarrow>
     0 < duration_nights b \<and> number_of_guests b \<le> max_guests (listing b)"
  by (auto simp: clean_def duration_nights_def)

text \<open>
  C8, as stated, fails: six guests on a listing for four, with the check-out
  before the check-in, is refused for its dates and not for its guests.
\<close>

theorem clean_inverted_dates_not_CapacityExceeded:
  "number_of_guests (ex_party 739041 739038 6) > max_guests (listing (ex_party 739041 739038 6))
   \<and> clean (ex_party 739041 739038 6) = Inl InvalidDateRange"
  by (simp add: clean_def ex_party_def)

text \<open>
  C8, amended: \<open>Booking.clean\<close> on a booking whose check-in is before its
  check-out fails with \<open>CapacityExceeded\<close> when number\_of\_guests exceeds the
  listing's max\_guests; a booking with number\_of\_guests \<le> max\_guests never
  fails for this reason; and a booking with more guests than max\_guests
  never passes.
\<close>

theorem clean_CapacityExceeded_iff:
  "(check_in_date b < check_out_date b \<and> number_of_guests b > max_guests (listing b)
      \<longrightarrow> clean b = Inl (CapacityExceeded (max_guests (listing b))))
   \<and> (number_of_guests b \<le> max_guests (listing b) \<longrightarrow> clean b \<noteq> Inl (CapacityExceeded m))
   \<and> (number_of_guests b > max_guests (listing b) \<longrightarrow> clean b \<noteq> Inr ())"
  by (simp add: clean_def)

theorem clean_CapacityExceeded_iff_witness:
  "clean (ex_party 739038 739041 6) = Inl (CapacityExceeded 4)
   \<and> clean (ex_party 739038 739041 4) \<noteq> Inl (CapacityExceeded 4)"
  using clean_CapacityExceeded_iff [of "ex_party 739038 739041 6" 4]
        clean_CapacityExceeded_iff [of "ex_party 739038 739041 4" 4]
  by (simp add: ex_party_def)

section \<open>Status transitions\<close>

text \<open>
  The table of \<open>validate_status\<close> has exactly three edges, and every other
  request on an instance is an \<open>IllegalTransition\<close>.
\<close>

lemma validate_status_edges:
  "validate_status (Some i) v = Inr v \<longleftrightarrow>
     (BookingRow.status i = ''pending'' \<and> (v = ''confirmed'' \<or> v = ''canceled'')
      \<or> BookingRow.status i = ''confirmed'' \<and> v = ''canceled'')"
  by (auto simp: validate_status_def valid_transitions_def Let_def)

lemma validate_status_rejects:
  "validate_status (Some i) v \<noteq> Inr v \<Longrightarrow>
     validate_status (Some i) v = Inl (IllegalTransition (BookingRow.status i) v)"
  by (auto simp: validate_status_def Let_def split: if_splits)

text \<open>
  C3 asks that confirming a cancelled booking and cancelling a cancelled
  booking fail. The actions \<open>confirm\<close> and \<open>cancel\<close> of the view set do not
  read the current status: the host's confirmation of a cancelled booking
  returns it confirmed, and the guest's cancellation of a cancelled booking
  succeeds. \<open>validate_status\<close> refuses both requests on a canceled row.
\<close>

theorem confirm_cancel_ignore_status:
  "confirm ex_cancelled 7 = Inr (ex_cancelled\<lparr>Booking.status := ''confirmed''\<rparr>)
   \<and> cancel ex_cancelled 5 = Inr ex_cancelled
   \<and> validate_status (Some ex_canceled_row) ''confirmed''
       = Inl (IllegalTransition ''canceled'' ''confirmed'')
   \<and> validate_status (Some ex_canceled_row) ''canceled''
       = Inl (IllegalTransition ''canceled'' ''canceled'')"
  by (simp add: confirm_def cancel_def ex_cancelled_def ex_canceled_row_def validate_status_def Let_def
        valid_transitions_def)

section \<open>Payments\<close>

lemma filter_unique_row:
  assumes "distinct (map f xs)" and "x \<in> set xs" and "y \<in> set xs" and "f x = f y"
  shows "x = y"
  using assms by (meson distinct_map inj_onD)

lemma save_lookup:
  assumes d: "distinct (map PaymentRow.pk rows)"
    and f: "filter (\<lambda>q. transaction_id q = tx) rows = [p]"
  shows "filter (\<lambda>q. transaction_id q = tx)
           (map (\<lambda>q. if PaymentRow.pk q = PaymentRow.pk p then p\<lparr>PaymentRow.status := st\<rparr> else q) rows)
         = [p\<lparr>PaymentRow.status := st\<rparr>]"
proof -
  let ?g = "\<lambda>q. if PaymentRow.pk q = PaymentRow.pk p then p\<lparr>PaymentRow.status := st\<rparr> else q"
  have "p \<in> set (filter (\<lambda>q. transaction_id q = tx) rows)"
    by (simp add: f)
  then have pin: "p \<in> set rows" and ptx: "transaction_id p = tx"
    by simp_all
  have "filter (\<lambda>q. transaction_id q = tx) (map ?g rows)
          = map ?g (filter ((\<lambda>q. transaction_id q = tx) \<circ> ?g) rows)"
    by (simp add: filter_map)
  also have "filter ((\<lambda>q. transaction_id q = tx) \<circ> ?g) rows = filter (\<lambda>q. transaction_id q = tx) rows"
  proof (rule filter_cong [OF refl])
    fix q assume "q \<in> set rows"
    then show "((\<lambda>q. transaction_id q = tx) \<circ> ?g) q = (transaction_id q = tx)"
      using filter_unique_row [OF d _ pin, of q] ptx by auto
  qed
  finally show ?thesis by (simp add: f)
qed

lemma post_db_cases:
  "snd (post s u bid uuid reply) = s
   \<or> (\<exists>k a. \<not> list_ex (\<lambda>p. booking p = k) (payments s)
          \<and> snd (post s u bid uuid reply) = objects_create k a (''travel-'' @ uuid) ''pending'' s)"
  by (auto simp: post_def Let_def split: option.splits gateway_reply.splits sum.splits)

text \<open>
  C4, as stated, fails: a verification of a failed payment to which the
  gateway answers success leaves it completed, and a verification of a
  completed payment to which the gateway answers otherwise leaves it failed.
\<close>

theorem verify_leaf_status_changes:
  "payments (snd (get (ex_db [ex_payment ''failed'']) ''travel-abc'' (ex_settled ''success'')))
     = [ex_payment ''completed'']
   \<and> payments (snd (get (ex_db [ex_payment ''completed'']) ''travel-abc'' (ex_settled ''failed'')))
     = [ex_payment ''failed'']"
  by (simp add: get_def objects_get_def save_def getitem_def ex_db_def ex_payment_def ex_settled_def)

text \<open>
  C4, amended: \<open>get\<close> does not read the stored status. With primary keys
  distinct and one payment under the transaction reference, a reply of code
  200 whose body has a \<open>status\<close> entry leaves that payment with status
  completed when the entry is "success" and failed otherwise, whatever its
  status was; a reply of another code leaves the database as it was.
\<close>

theorem verify_overwrites_status:
  assumes "distinct (map PaymentRow.pk (payments s))"
    and "filter (\<lambda>q. transaction_id q = tx) (payments s) = [p]"
  shows "(getitem data ''status'' = Inr v
            \<longrightarrow> objects_get (\<lambda>q. transaction_id q = tx)
                  (payments (snd (get s tx (HttpResponse 200 (Some data)))))
                = Inr (p\<lparr>PaymentRow.status := verdict v\<rparr>))
         \<and> (code \<noteq> 200 \<longrightarrow> snd (get s tx (HttpResponse code body)) = s)"
proof (intro conjI impI)
  assume "getitem data ''status'' = Inr v"
  then show "objects_get (\<lambda>q. transaction_id q = tx)
               (payments (snd (get s tx (HttpResponse 200 (Some data)))))
             = Inr (p\<lparr>PaymentRow.status := verdict v\<rparr>)"
    using assms save_lookup [OF assms]
    by (simp add: get_def objects_get_def save_def verdict_def)
next
  assume "code \<noteq> 200"
  then show "snd (get s tx (HttpResponse code body)) = s"
    using assms by (simp add: get_def objects_get_def)
qed

theorem verify_overwrites_status_witness:
  "objects_get (\<lambda>q. transaction_id q = ''travel-abc'')
     (payments (snd (get (ex_db [ex_payment ''failed'']) ''travel-abc'' (ex_settled ''success''))))
     = Inr (ex_payment ''completed'')
   \<and> snd (get (ex_db [ex_payment ''failed'']) ''travel-abc'' (HttpResponse 502 None))
     = ex_db [ex_payment ''failed'']"
  using verify_overwrites_status [where s = "ex_db [ex_payment ''failed'']"
          and tx = "''travel-abc''" and p = "ex_payment ''failed''"
          and data = "JDict [(''status'', JStr ''success'')]" and v = "JStr ''success''"
          and code = 502 and body = None]
  by (simp add: ex_db_def ex_payment_def ex_settled_def getitem_def verdict_def)

text \<open>
  C5: a gateway response of a code other than 200 leaves the database
  unchanged in both views; when the gateway was reached (the booking was
  found for the user and has no payment; one payment has the transaction
  reference) the view answers with its gateway error, and so initiation has
  persisted no payment and verification has left the payment's status as it
  was.
\<close>

theorem gateway_failure_leaves_state:
  assumes "code \<noteq> 200"
  shows "snd (post s u bid uuid (HttpResponse code body)) = s
         \<and> snd (get s tx (HttpResponse code body)) = s
         \<and> (find (\<lambda>b. BookingRow.pk b = bid \<and> user b = u) (bookings s) = Some bk
              \<and> \<not> list_ex (\<lambda>p. booking p = BookingRow.pk bk) (payments s)
            \<longrightarrow> fst (post s u bid uuid (HttpResponse code body)) = Inr GatewayError_initiate)
         \<and> (filter (\<lambda>q. transaction_id q = tx) (payments s) = [p]
            \<longrightarrow> fst (get s tx (HttpResponse code body)) = Inr GatewayError_verify)"
  using assms
  by (auto simp: post_def get_def objects_get_def Let_def GatewayError_initiate_def
        GatewayError_verify_def split: option.splits sum.splits exn.splits list.splits)

theorem gateway_failure_leaves_state_witness:
  "post (ex_db []) 5 1 ''abc'' (HttpResponse 502 None) = (Inr GatewayError_initiate, ex_db [])
   \<and> get (ex_db [ex_payment ''pending'']) ''travel-abc'' (HttpResponse 502 None)
       = (Inr GatewayError_verify, ex_db [ex_payment ''pending''])"
  using gateway_failure_leaves_state [of 502 "ex_db []" 5 1 "''abc''" None "''travel-abc''"
          ex_first "ex_payment ''pending''"]
        gateway_failure_leaves_state [of 502 "ex_db [ex_payment ''pending'']" 5 1 "''abc''" None
          "''travel-abc''" ex_first "ex_payment ''pending''"]
  by (simp add: ex_db_def ex_first_def ex_second_def ex_payment_def prod_eq_iff)

text \<open>
  C6: when a payment exists for the booking, an initiation creates nothing,
  and answers \<open>PaymentAlreadyInitiated\<close> to the user of the booking; and no
  initiation, whatever its inputs, makes two payments refer to one booking.
\<close>

theorem second_initiate_rejected:
  "(list_ex (\<lambda>p. booking p = bid) (payments s)
      \<longrightarrow> snd (post s u bid uuid reply) = s
          \<and> (find (\<lambda>b. BookingRow.pk b = bid \<and> user b = u) (bookings s) = Some bk
               \<longrightarrow> fst (post s u bid uuid reply) = Inr PaymentAlreadyInitiated))
   \<and> (distinct (map booking (payments s))
        \<longrightarrow> distinct (map booking (payments (snd (post s u bid uuid reply)))))"
proof (intro conjI impI)
  assume ex: "list_ex (\<lambda>p. booking p = bid) (payments s)"
  show "snd (post s u bid uuid reply) = s"
    using ex by (auto simp: post_def find_Some_iff split: option.splits)
  assume f: "find (\<lambda>b. BookingRow.pk b = bid \<and> user b = u) (bookings s) = Some bk"
  then have "BookingRow.pk bk = bid" by (auto simp: find_Some_iff)
  then show "fst (post s u bid uuid reply) = Inr PaymentAlreadyInitiated"
    using ex by (simp add: post_def f PaymentAlreadyInitiated_def)
next
  assume d: "distinct (map booking (payments s))"
  show "distinct (map booking (payments (snd (post s u bid uuid reply))))"
  proof (rule disjE [OF post_db_cases [of s u bid uuid reply]])
    assume "snd (post s u bid uuid reply) = s"
    then show ?thesis using d by simp
  next
    assume "\<exists>k a. \<not> list_ex (\<lambda>p. booking p = k) (payments s)
          \<and> snd (post s u bid uuid reply) = objects_create k a (''travel-'' @ uuid) ''pending'' s"
    then obtain k a where fresh: "\<not> list_ex (\<lambda>p. booking p = k) (payments s)"
      and eq: "snd (post s u bid uuid reply) = objects_create k a (''travel-'' @ uuid) ''pending'' s"
      by auto
    from fresh have "k \<notin> booking ` set (payments s)"
      by (auto simp: list_ex_iff)
    then show ?thesis using d by (simp add: eq objects_create_def)
  qed
qed

theorem second_initiate_rejected_witness:
  "fst (post (ex_db []) 5 1 ''abc'' ex_checkout)
     = Inr (Response [(''checkout_url'', JStr ''https://pay/abc''),
                      (''message'', JStr ''Payment initiated successfully'')] 200)
   \<and> post (snd (post (ex_db []) 5 1 ''abc'' ex_checkout)) 5 1 ''def'' ex_checkout
     = (Inr PaymentAlreadyInitiated, snd (post (ex_db []) 5 1 ''abc'' ex_checkout))
   \<and> map booking (payments (snd (post (ex_db []) 5 1 ''abc'' ex_checkout))) = [1]"
  using second_initiate_rejected [of 1 "snd (post (ex_db []) 5 1 ''abc'' ex_checkout)" 5 "''def''"
          ex_checkout ex_first]
  by (simp add: post_def ex_db_def ex_first_def ex_second_def ex_checkout_def getitem_def
        objects_create_def fresh_pk_def prod_eq_iff)

text \<open>
  C7: a verification under a transaction reference that no payment has
  answers \<open>PaymentNotFound\<close> and changes nothing; when one payment has it and
  the gateway answers 200 with status "success", the view answers completed,
  the payment is stored with status completed, and the task queue has grown
  by exactly one confirmation, for the payment's booking.
\<close>

theorem verify_not_found_and_success:
  "(filter (\<lambda>q. transaction_id q = tx) (payments s) = []
      \<longrightarrow> get s tx reply = (Inr PaymentNotFound, s))
   \<and> (filter (\<lambda>q. transaction_id q = tx) (payments s) = [p]
        \<and> getitem data ''status'' = Inr (JStr ''success'')
      \<longrightarrow> fst (get s tx (HttpResponse 200 (Some data))) = Inr VerifiedCompleted
          \<and> p\<lparr>PaymentRow.status := ''completed''\<rparr>
              \<in> set (payments (snd (get s tx (HttpResponse 200 (Some data)))))
          \<and> list_all (\<lambda>q. PaymentRow.pk q \<noteq> PaymentRow.pk p \<or> PaymentRow.status q = ''completed'')
               (payments (snd (get s tx (HttpResponse 200 (Some data)))))
          \<and> task_queue (snd (get s tx (HttpResponse 200 (Some data))))
              = task_queue s @ [send_booking_confirmation (booking p)])"
proof (intro conjI impI)
  assume "filter (\<lambda>q. transaction_id q = tx) (payments s) = []"
  then show "get s tx reply = (Inr PaymentNotFound, s)"
    by (simp add: get_def objects_get_def PaymentNotFound_def)
next
  assume a: "filter (\<lambda>q. transaction_id q = tx) (payments s) = [p]
        \<and> getitem data ''status'' = Inr (JStr ''success'')"
  then have g: "get s tx (HttpResponse 200 (Some data))
      = (Inr VerifiedCompleted,
         (save (p\<lparr>PaymentRow.status := ''completed''\<rparr>) s)
           \<lparr>task_queue := task_queue (save (p\<lparr>PaymentRow.status := ''completed''\<rparr>) s)
              @ [send_booking_confirmation (booking p)]\<rparr>)"
    by (simp add: get_def objects_get_def VerifiedCompleted_def Let_def)
  have "p \<in> set (filter (\<lambda>q. transaction_id q = tx) (payments s))" using a by simp
  then have pin: "p \<in> set (payments s)" by simp
  show "fst (get s tx (HttpResponse 200 (Some data))) = Inr VerifiedCompleted"
    by (simp add: g)
  show "p\<lparr>PaymentRow.status := ''completed''\<rparr>
              \<in> set (payments (snd (get s tx (HttpResponse 200 (Some data)))))"
    using pin by (auto simp: g save_def image_iff intro!: bexI [of _ p])
  show "list_all (\<lambda>q. PaymentRow.pk q \<noteq> PaymentRow.pk p \<or> PaymentRow.status q = ''completed'')
               (payments (snd (get s tx (HttpResponse 200 (Some data)))))"
    by (auto simp: g save_def list_all_iff)
  show "task_queue (snd (get s tx (HttpResponse 200 (Some data))))
              = task_queue s @ [send_booking_confirmation (booking p)]"
    by (simp add: g save_def)
qed

theorem verify_not_found_and_success_witness:
  "get (ex_db []) ''travel-abc'' (ex_settled ''success'') = (Inr PaymentNotFound, ex_db [])
   \<and> fst (get (ex_db [ex_payment ''pending'']) ''travel-abc'' (ex_settled ''success''))
       = Inr VerifiedCompleted
   \<and> ex_payment ''completed''
       \<in> set (payments (snd (get (ex_db [ex_payment ''pending'']) ''travel-abc''
                                (ex_settled ''success''))))
   \<and> task_queue (snd (get (ex_db [ex_payment ''pending'']) ''travel-abc'' (ex_settled ''success'')))
       = [send_booking_confirmation 1]"
  using verify_not_found_and_success [where tx = "''travel-abc''" and s = "ex_db []"
          and reply = "ex_settled ''success''" and p = "ex_payment ''pending''"
          and data = "JDict [(''status'', JStr ''success'')]"]
        verify_not_found_and_success [where tx = "''travel-abc''"
          and s = "ex_db [ex_payment ''pending'']"
          and reply = "ex_settled ''success''" and p = "ex_payment ''pending''"
          and data = "JDict [(''status'', JStr ''success'')]"]
  by (simp add: ex_db_def ex_payment_def ex_settled_def getitem_def)

text \<open>
  C10: an initiation for a booking that exists and belongs to another user
  is answered with "Booking not found" (404) and changes nothing, which is
  the answer for a booking that does not exist.
\<close>

theorem initiate_foreign_booking_not_found:
  "(distinct (map BookingRow.pk (bookings s)) \<and> b \<in> set (bookings s)
      \<and> BookingRow.pk b = bid \<and> user b \<noteq> u
    \<longrightarrow> post s u bid uuid reply = (Inr BookingNotFound, s))
   \<and> (bid \<notin> BookingRow.pk ` set (bookings s)
    \<longrightarrow> post s u bid uuid reply = (Inr BookingNotFound, s))"
proof (intro conjI impI)
  assume a: "distinct (map BookingRow.pk (bookings s)) \<and> b \<in> set (bookings s)
      \<and> BookingRow.pk b = bid \<and> user b \<noteq> u"
  have "find (\<lambda>b. BookingRow.pk b = bid \<and> user b = u) (bookings s) = None"
  proof (rule ccontr)
    assume "find (\<lambda>b. BookingRow.pk b = bid \<and> user b = u) (bookings s) \<noteq> None"
    then obtain c where c: "c \<in> set (bookings s)" "BookingRow.pk c = bid" "user c = u"
      by (auto simp: find_None_iff)
    then have "c = b" using a filter_unique_row [of BookingRow.pk "bookings s" c b] by simp
    then show False using a c by simp
  qed
  then show "post s u bid uuid reply = (Inr BookingNotFound, s)"
    by (simp add: post_def BookingNotFound_def)
next
  assume "bid \<notin> BookingRow.pk ` set (bookings s)"
  then have "find (\<lambda>b. BookingRow.pk b = bid \<and> user b = u) (bookings s) = None"
    by (auto simp: find_None_iff)
  then show "post s u bid uuid reply = (Inr BookingNotFound, s)"
    by (simp add: post_def BookingNotFound_def)
qed

theorem initiate_foreign_booking_not_found_witness:
  "post (ex_db []) 6 1 ''abc'' ex_checkout = (Inr BookingNotFound, ex_db [])
   \<and> post (ex_db []) 6 8 ''abc'' ex_checkout = (Inr BookingNotFound, ex_db [])"
  using initiate_foreign_booking_not_found [of "ex_db []" ex_first 1 6 "''abc''" ex_checkout]
        initiate_foreign_booking_not_found [of "ex_db []" ex_first 8 6 "''abc''" ex_checkout]
  by (simp add: ex_db_def ex_first_def ex_second_def)

end
